theory Spec2Isabelle
  imports Complex_Main
begin

section \<open>Python values and library functions used by the training script\<close>

text \<open>
  The script \<^verbatim>\<open>new_main_supcon_Generalization.py\<close> is embedded function by function:
  \<^verbatim>\<open>parse_option\<close>, \<^verbatim>\<open>set_loader\<close>, \<^verbatim>\<open>set_model\<close>, \<^verbatim>\<open>train\<close> and \<^verbatim>\<open>main\<close>.
  Python \<^verbatim>\<open>int\<close> is \<^typ>\<open>int\<close>; Python \<^verbatim>\<open>float\<close> is idealised as \<^typ>\<open>real\<close> (no rounding,
  no overflow, no NaN); \<^verbatim>\<open>str\<close> is \<^typ>\<open>string\<close> (ASCII text, one \<^typ>\<open>char\<close> per character).
  Every exception the script can raise by itself is a value of \<open>error\<close>, and a function
  that can raise returns \<open>error + 'a\<close> with \<open>Inl\<close> for the exception.
\<close>

datatype error =
    SystemExit int            \<comment> \<open>\<^verbatim>\<open>parser.error\<close>: usage message, exit status 2\<close>
  | AssertionError
  | ValueError string
  | ZeroDivisionError
  | RuntimeError string
  | UnboundLocalError string  \<comment> \<open>the local variable read before assignment\<close>
  | NameError string          \<comment> \<open>the global name that is not defined\<close>
  | LibraryError string       \<comment> \<open>an exception raised inside an external collaborator\<close>

definition bind_err :: "error + 'a \<Rightarrow> ('a \<Rightarrow> error + 'b) \<Rightarrow> error + 'b" where
  "bind_err r f = (case r of Inl e \<Rightarrow> Inl e | Inr a \<Rightarrow> f a)"

subsection \<open>\<^verbatim>\<open>str.split(',')\<close>, \<^verbatim>\<open>int(str)\<close>, \<^verbatim>\<open>str(int)\<close>, \<^verbatim>\<open>os.path.join\<close>\<close>

text \<open>\<^verbatim>\<open>s.split(',')\<close>: the pieces between commas; the empty string gives one empty piece.\<close>

fun split_comma :: "string \<Rightarrow> string list" where
  "split_comma [] = [[]]"
| "split_comma (c # cs) =
     (if c = CHR '','' then [] # split_comma cs
      else (case split_comma cs of
              [] \<Rightarrow> [[c]]
            | p # ps \<Rightarrow> (c # p) # ps))"

text \<open>
  \<^verbatim>\<open>int(s)\<close> on an ASCII string, base 10: surrounding whitespace is stripped, one sign is
  allowed, then decimal digits, where single underscores may stand between digits.
  Anything else raises \<^verbatim>\<open>ValueError\<close>.
\<close>

definition is_space :: "char \<Rightarrow> bool" where
  "is_space c = (c \<in> set [CHR '' '', CHR 0x09, CHR 0x0A, CHR 0x0B, CHR 0x0C, CHR 0x0D])"

definition is_digit :: "char \<Rightarrow> bool" where
  "is_digit c = (c \<in> set ''0123456789'')"

definition digit_val :: "char \<Rightarrow> int" where
  "digit_val c = int (of_char c) - 48"

definition strip :: "string \<Rightarrow> string" where
  "strip s = rev (dropWhile is_space (rev (dropWhile is_space s)))"

text \<open>\<open>digits_ok prev cs\<close>: \<open>cs\<close> continues a digit string whose previous character was a
  digit (\<open>prev = True\<close>) or an underscore or the start (\<open>prev = False\<close>).\<close>

fun digits_ok :: "bool \<Rightarrow> string \<Rightarrow> bool" where
  "digits_ok prev [] = prev"
| "digits_ok prev (c # cs) =
     (if is_digit c then digits_ok True cs
      else if c = CHR ''_'' \<and> prev then digits_ok False cs
      else False)"

definition digits_value :: "string \<Rightarrow> int" where
  "digits_value cs = foldl (\<lambda>acc c. 10 * acc + digit_val c) 0 (filter is_digit cs)"

definition py_int :: "string \<Rightarrow> error + int" where
  "py_int s =
     (let t = strip s;
          (neg, body) = (case t of
                           [] \<Rightarrow> (False, [])
                         | c # cs \<Rightarrow> if c = CHR ''-'' then (True, cs)
                                     else if c = CHR ''+'' then (False, cs)
                                     else (False, t))
      in if digits_ok False body
         then Inr (if neg then - digits_value body else digits_value body)
         else Inl (ValueError (''invalid literal for int() with base 10: '' @ s)))"

text \<open>\<^verbatim>\<open>[int(it) for it in iterations]\<close>: the first item that does not parse raises.\<close>

fun int_each :: "string list \<Rightarrow> error + int list" where
  "int_each [] = Inr []"
| "int_each (s # ss) =
     bind_err (py_int s) (\<lambda>n. bind_err (int_each ss) (\<lambda>ns. Inr (n # ns)))"

text \<open>\<^verbatim>\<open>str(n)\<close> for an integer: sign and decimal digits.\<close>

fun str_nat :: "nat \<Rightarrow> string" where
  "str_nat n =
     (if n < 10 then [''0123456789'' ! n]
      else str_nat (n div 10) @ [''0123456789'' ! (n mod 10)])"

declare str_nat.simps [simp del]

definition str_int :: "int \<Rightarrow> string" where
  "str_int n = (if n < 0 then CHR ''-'' # str_nat (nat (- n)) else str_nat (nat n))"

text \<open>\<^verbatim>\<open>os.path.join(a, b)\<close> on POSIX, for two components.\<close>

definition path_join :: "string \<Rightarrow> string \<Rightarrow> string" where
  "path_join a b =
     (if b \<noteq> [] \<and> hd b = CHR ''/'' then b
      else if a = [] \<or> last a = CHR ''/'' then a @ b
      else a @ ''/'' @ b)"


section \<open>Configuration: \<^verbatim>\<open>parse_option\<close>\<close>

subsection \<open>The command line as \<^verbatim>\<open>argparse\<close> sees it\<close>

text \<open>
  The command line is the sequence of options given, each with its value already
  converted by the option's \<^verbatim>\<open>type=\<close> (\<^verbatim>\<open>int\<close>, \<^verbatim>\<open>float\<close>, \<^verbatim>\<open>str\<close>); a flag
  (\<^verbatim>\<open>action='store_true'\<close>) has no value. Tokenising \<^verbatim>\<open>sys.argv\<close> and the conversions
  belong to \<^verbatim>\<open>argparse\<close> and are not modelled.
\<close>

datatype arg =
    Arg_print_freq int
  | Arg_save_freq int
  | Arg_batch_size int
  | Arg_num_workers int
  | Arg_epochs int
  | Arg_learning_rate real
  | Arg_lr_decay_epochs string
  | Arg_lr_decay_rate real
  | Arg_weight_decay real
  | Arg_momentum real
  | Arg_model string
  | Arg_dataset string
  | Arg_mean string
  | Arg_std string
  | Arg_data_folder string
  | Arg_size int
  | Arg_method string
  | Arg_temp real
  | Arg_cosine
  | Arg_syncBN
  | Arg_warm
  | Arg_trial string

text \<open>
  The namespace \<^verbatim>\<open>parser.parse_args()\<close> returns. \<open>None\<close> is Python's \<^verbatim>\<open>None\<close>.
  The attribute \<^verbatim>\<open>lr_decay_epochs\<close> holds a string here and is overwritten with a list
  of integers by \<^verbatim>\<open>parse_option\<close>; a HOL field has one type, so the string is the field
  \<open>lr_decay_epochs_str\<close> and the list is the field \<open>lr_decay_epochs\<close> of \<open>opt\<close> below.
  \<^verbatim>\<open>size\<close> and \<^verbatim>\<open>method\<close> are the fields \<open>size_arg\<close> and \<open>method_arg\<close>.
\<close>

record namespace =
  print_freq :: int
  save_freq :: int
  batch_size :: int
  num_workers :: int
  epochs :: int
  learning_rate :: real
  lr_decay_epochs_str :: string
  lr_decay_rate :: real
  weight_decay :: real
  momentum :: real
  model :: string
  dataset :: string
  mean :: "string option"
  std :: "string option"
  data_folder :: "string option"
  size_arg :: int
  method_arg :: string
  temp :: real
  cosine :: bool
  syncBN :: bool
  warm :: bool
  trial :: string

definition defaults :: namespace where
  "defaults = \<lparr>
     print_freq = 10, save_freq = 4, batch_size = 256, num_workers = 16, epochs = 1000,
     learning_rate = 0.05, lr_decay_epochs_str = ''700,800,900'', lr_decay_rate = 0.1,
     weight_decay = 1 / 10000, momentum = 0.9,
     model = ''CustomCNN'', dataset = ''sp'', mean = None, std = None, data_folder = None,
     size_arg = 32, method_arg = ''SupCon'', temp = 0.07,
     cosine = False, syncBN = False, warm = False, trial = ''0'' \<rparr>"

text \<open>One option is stored into the namespace; a value outside an option's \<^verbatim>\<open>choices\<close>
  ends the process through \<^verbatim>\<open>parser.error\<close> (exit status 2).\<close>

fun store :: "namespace \<Rightarrow> arg \<Rightarrow> error + namespace" where
  "store ns (Arg_print_freq v) = Inr (ns\<lparr>print_freq := v\<rparr>)"
| "store ns (Arg_save_freq v) = Inr (ns\<lparr>save_freq := v\<rparr>)"
| "store ns (Arg_batch_size v) = Inr (ns\<lparr>batch_size := v\<rparr>)"
| "store ns (Arg_num_workers v) = Inr (ns\<lparr>num_workers := v\<rparr>)"
| "store ns (Arg_epochs v) = Inr (ns\<lparr>epochs := v\<rparr>)"
| "store ns (Arg_learning_rate v) = Inr (ns\<lparr>learning_rate := v\<rparr>)"
| "store ns (Arg_lr_decay_epochs v) = Inr (ns\<lparr>lr_decay_epochs_str := v\<rparr>)"
| "store ns (Arg_lr_decay_rate v) = Inr (ns\<lparr>lr_decay_rate := v\<rparr>)"
| "store ns (Arg_weight_decay v) = Inr (ns\<lparr>weight_decay := v\<rparr>)"
| "store ns (Arg_momentum v) = Inr (ns\<lparr>momentum := v\<rparr>)"
| "store ns (Arg_model v) = Inr (ns\<lparr>model := v\<rparr>)"
| "store ns (Arg_dataset v) =
     (if v \<in> set [''rf'', ''sp''] then Inr (ns\<lparr>dataset := v\<rparr>) else Inl (SystemExit 2))"
| "store ns (Arg_mean v) = Inr (ns\<lparr>mean := Some v\<rparr>)"
| "store ns (Arg_std v) = Inr (ns\<lparr>std := Some v\<rparr>)"
| "store ns (Arg_data_folder v) = Inr (ns\<lparr>data_folder := Some v\<rparr>)"
| "store ns (Arg_size v) = Inr (ns\<lparr>size_arg := v\<rparr>)"
| "store ns (Arg_method v) =
     (if v \<in> set [''SupCon'', ''SimCLR''] then Inr (ns\<lparr>method_arg := v\<rparr>) else Inl (SystemExit 2))"
| "store ns (Arg_temp v) = Inr (ns\<lparr>temp := v\<rparr>)"
| "store ns Arg_cosine = Inr (ns\<lparr>cosine := True\<rparr>)"
| "store ns Arg_syncBN = Inr (ns\<lparr>syncBN := True\<rparr>)"
| "store ns Arg_warm = Inr (ns\<lparr>warm := True\<rparr>)"
| "store ns (Arg_trial v) = Inr (ns\<lparr>trial := v\<rparr>)"

fun parse_args_from :: "namespace \<Rightarrow> arg list \<Rightarrow> error + namespace" where
  "parse_args_from ns [] = Inr ns"
| "parse_args_from ns (a # as) = bind_err (store ns a) (\<lambda>ns'. parse_args_from ns' as)"

definition parse_args :: "arg list \<Rightarrow> error + namespace" where
  "parse_args argv = parse_args_from defaults argv"

subsection \<open>The options record after \<^verbatim>\<open>parse_option\<close>\<close>

text \<open>
  \<^verbatim>\<open>parse_option\<close> adds attributes to the namespace. \<^verbatim>\<open>warmup_from\<close>, \<^verbatim>\<open>warm_epochs\<close>
  and \<^verbatim>\<open>warmup_to\<close> are set only when warmup is on: \<open>None\<close> is the absent attribute.
\<close>

record opt = namespace +
  model_path :: string
  tb_path :: string
  lr_decay_epochs :: "int list"
  model_name :: string
  warmup_from :: "real option"
  warm_epochs :: "int option"
  warmup_to :: "real option"
  tb_folder :: string
  save_folder :: string

text \<open>Observable effects of a run, in the order they happen. \<open>'m\<close> is the state of the
  encoder, \<open>'o\<close> the state of the optimizer.\<close>

datatype ('m, 'o) event =
    EnsureDir string
      \<comment> \<open>\<^verbatim>\<open>if not os.path.isdir(p): os.makedirs(p)\<close>\<close>
  | PrintLine string
  | OpenDataset "string option"
      \<comment> \<open>\<^verbatim>\<open>SPDataset(data_dir=p, ...)\<close>\<close>
  | BuildLoader int int
      \<comment> \<open>\<^verbatim>\<open>DataLoader(..., batch_size, num_workers)\<close>\<close>
  | BuildModel string
  | BuildCriterion real
  | BuildOptimizer
  | OpenLogger string
  | AdjustLR int
      \<comment> \<open>\<^verbatim>\<open>adjust_learning_rate(opt, optimizer, epoch)\<close>\<close>
  | FetchBatch int nat
      \<comment> \<open>epoch and index of a batch taken from the loader\<close>
  | OptimStep int nat
      \<comment> \<open>\<^verbatim>\<open>zero_grad\<close>, \<^verbatim>\<open>backward\<close>, \<^verbatim>\<open>step\<close> for that batch\<close>
  | Progress int nat nat real real real real real real
      \<comment> \<open>the progress line: epoch, step, steps per epoch, then \<^verbatim>\<open>val\<close> and \<^verbatim>\<open>avg\<close> of
          batch time, data time and loss\<close>
  | EpochTime int real
  | LogValue string real int
  | SaveModel 'm 'o int string
      \<comment> \<open>\<^verbatim>\<open>save_model(model, optimizer, opt, epoch, save_file)\<close>\<close>

text \<open>The warmup-end rate in the cosine case (lines 78 to 80); \<^verbatim>\<open>x / opt.epochs\<close> raises
  when \<^verbatim>\<open>opt.epochs\<close> is zero.\<close>

definition cosine_warmup_to :: "real \<Rightarrow> real \<Rightarrow> int \<Rightarrow> int \<Rightarrow> error + real" where
  "cosine_warmup_to lr rate w_epochs n_epochs =
     (let eta_min = lr * rate ^ 3
      in if n_epochs = 0 then Inl ZeroDivisionError
         else Inr (eta_min + (lr - eta_min) *
                     (1 + cos (pi * real_of_int w_epochs / real_of_int n_epochs)) / 2))"

text \<open>
  \<open>repr_float\<close> stands for \<^verbatim>\<open>'{}'.format(x)\<close> on a float, which depends on the binary
  representation and is left as a parameter. Lines 64 to 66:
\<close>

definition base_model_name :: "(real \<Rightarrow> string) \<Rightarrow> namespace \<Rightarrow> string" where
  "base_model_name repr_float ns =
     ''tran'' @ method_arg ns @ ''_'' @ dataset ns @ ''_'' @ model ns
     @ ''_lr_'' @ repr_float (learning_rate ns)
     @ ''_decay_'' @ repr_float (weight_decay ns)
     @ ''_bsz_'' @ str_int (batch_size ns)
     @ ''_temp_'' @ repr_float (temp ns)
     @ ''_trial_'' @ trial ns"

text \<open>Lines 77 to 82, the value assigned to \<^verbatim>\<open>opt.warmup_to\<close>:\<close>

definition warmup_end :: "namespace \<Rightarrow> error + real" where
  "warmup_end ns =
     (if cosine ns
      then cosine_warmup_to (learning_rate ns) (lr_decay_rate ns) 10 (epochs ns)
      else Inr (learning_rate ns))"

text \<open>
  The attribute assignments of \<^verbatim>\<open>parse_option\<close>, given the parsed milestones and the
  warmup-end rate (\<open>None\<close> when warmup is off).
\<close>

definition make_opt :: "(real \<Rightarrow> string) \<Rightarrow> namespace \<Rightarrow> int list \<Rightarrow> real option \<Rightarrow> opt" where
  "make_opt repr_float ns milestones w_to =
     (let folder = (case data_folder ns of None \<Rightarrow> Some ''./datasets/'' | Some d \<Rightarrow> Some d);
          mpath = ''./save/newSupCon/'' @ dataset ns @ ''_models'';
          tpath = ''./save/newSupCon/'' @ dataset ns @ ''_tensorboard'';
          name0 = base_model_name repr_float ns;
          name1 = (if cosine ns then name0 @ ''_cosine'' else name0);
          warm1 = (if batch_size ns > 256 then True else warm ns);
          name2 = (if warm1 then name1 @ ''_warm'' else name1)
      in namespace.extend (ns\<lparr>data_folder := folder, warm := warm1\<rparr>)
           (opt.fields mpath tpath milestones name2
              (if warm1 then Some (1 / 100) else None)
              (if warm1 then Some 10 else None)
              w_to
              (path_join tpath name2)
              (path_join mpath name2)))"

text \<open>
  \<^verbatim>\<open>parse_option\<close> without its two directory creations: what can raise, in the order
  of the source (the assertion of line 54, \<^verbatim>\<open>int\<close> in line 62, the division in line 80).
  Everything that can raise comes before the directory creations, so those are the
  events of a successful parse.
\<close>

definition parse_option_value :: "(real \<Rightarrow> string) \<Rightarrow> arg list \<Rightarrow> error + opt" where
  "parse_option_value repr_float argv =
     bind_err (parse_args argv) (\<lambda>ns.
       if dataset ns \<in> set [''path'', ''rf''] \<and>
          \<not> (data_folder ns \<noteq> None \<and> mean ns \<noteq> None \<and> std ns \<noteq> None)
       then Inl AssertionError
       else
       bind_err (int_each (split_comma (lr_decay_epochs_str ns))) (\<lambda>milestones.
       bind_err (if (if batch_size ns > 256 then True else warm ns)
                 then bind_err (warmup_end ns) (\<lambda>r. Inr (Some r))
                 else Inr None) (\<lambda>w_to.
       Inr (make_opt repr_float ns milestones w_to))))"

definition parse_option ::
  "(real \<Rightarrow> string) \<Rightarrow> arg list \<Rightarrow> ('m, 'o) event list \<times> (error + opt)" where
  "parse_option repr_float argv =
     (case parse_option_value repr_float argv of
        Inl e \<Rightarrow> ([], Inl e)
      | Inr opt \<Rightarrow> ([EnsureDir (tb_folder opt), EnsureDir (save_folder opt)], Inr opt))"


section \<open>Effects and external collaborators\<close>

text \<open>A computation that emits events and then returns or raises. The events emitted
  before an exception stay emitted.\<close>

type_synonym ('v, 'a) run = "'v list \<times> (error + 'a)"

definition bind_run :: "('v, 'a) run \<Rightarrow> ('a \<Rightarrow> ('v, 'b) run) \<Rightarrow> ('v, 'b) run" where
  "bind_run r f =
     (case r of
        (es, Inl e) \<Rightarrow> (es, Inl e)
      | (es, Inr a) \<Rightarrow> (case f a of (es', r') \<Rightarrow> (es @ es', r')))"

definition emit :: "'v \<Rightarrow> ('v, unit) run" where
  "emit v = ([v], Inr ())"

definition return_run :: "'a \<Rightarrow> ('v, 'a) run" where
  "return_run a = ([], Inr a)"

definition raise_run :: "error \<Rightarrow> ('v, 'a) run" where
  "raise_run e = ([], Inl e)"

definition lift_err :: "error + 'a \<Rightarrow> ('v, 'a) run" where
  "lift_err r = ([], r)"

text \<open>A local variable that may not have been assigned: reading it while unassigned
  raises \<^verbatim>\<open>UnboundLocalError\<close>.\<close>

definition read_local :: "string \<Rightarrow> 'a option \<Rightarrow> error + 'a" where
  "read_local name v = (case v of None \<Rightarrow> Inl (UnboundLocalError name) | Some x \<Rightarrow> Inr x)"

subsection \<open>Tensors along the batch dimension\<close>

text \<open>
  A tensor of shape \<open>[B, d1, ..., dk]\<close> is its \<open>B\<close> slices along dimension 0 (\<open>rows\<close>,
  each of an abstract type) together with the remaining shape \<open>[d1, ..., dk]\<close>
  (\<open>inner_shape\<close>), which \<^verbatim>\<open>torch.cat\<close> compares.
\<close>

record 'a tensor =
  inner_shape :: "nat list"
  rows :: "'a list"

text \<open>\<^verbatim>\<open>torch.cat([a, b], dim=0)\<close>: the shapes must agree outside dimension 0, except that
  a one-dimensional empty tensor is skipped.\<close>

definition legacy_empty :: "'a tensor \<Rightarrow> bool" where
  "legacy_empty t = (inner_shape t = [] \<and> rows t = [])"

definition torch_cat0 :: "'a tensor \<Rightarrow> 'a tensor \<Rightarrow> error + 'a tensor" where
  "torch_cat0 a b =
     (if legacy_empty a then Inr b
      else if legacy_empty b then Inr a
      else if inner_shape a = inner_shape b
      then Inr \<lparr>inner_shape = inner_shape a, rows = rows a @ rows b\<rparr>
      else Inl (RuntimeError ''Sizes of tensors must match except in dimension 0''))"

text \<open>\<^verbatim>\<open>torch.split(t, sizes, dim=0)\<close>: consecutive chunks of the given sizes, which must
  add up to the size of dimension 0.\<close>

fun chunks :: "'a list \<Rightarrow> nat list \<Rightarrow> 'a list list" where
  "chunks xs [] = []"
| "chunks xs (n # ns) = take n xs # chunks (drop n xs) ns"

definition torch_split :: "'a tensor \<Rightarrow> nat list \<Rightarrow> error + 'a tensor list" where
  "torch_split t sizes =
     (if sum_list sizes = length (rows t)
      then Inr (map (\<lambda>r. \<lparr>inner_shape = inner_shape t, rows = r\<rparr>) (chunks (rows t) sizes))
      else Inl (RuntimeError ''split_with_sizes expects split_sizes to sum exactly to the size of dimension 0''))"

text \<open>\<^verbatim>\<open>f1, f2 = ...\<close>: unpacking a sequence of exactly two items.\<close>

fun unpack2 :: "'a list \<Rightarrow> error + 'a \<times> 'a" where
  "unpack2 [a, b] = Inr (a, b)"
| "unpack2 _ = Inl (ValueError ''wrong number of values to unpack (expected 2)'')"

text \<open>\<^verbatim>\<open>torch.cat([f1.unsqueeze(1), f2.unsqueeze(1)], dim=1)\<close>: row \<open>i\<close> of the result holds
  row \<open>i\<close> of \<open>f1\<close> and row \<open>i\<close> of \<open>f2\<close>; the shapes must agree outside dimension 1.\<close>

definition pair_views :: "'a tensor \<Rightarrow> 'a tensor \<Rightarrow> error + ('a list) tensor" where
  "pair_views f1 f2 =
     (if length (rows f1) = length (rows f2) \<and> inner_shape f1 = inner_shape f2
      then Inr \<lparr>inner_shape = 2 # inner_shape f1,
                rows = map2 (\<lambda>a b. [a, b]) (rows f1) (rows f2)\<rparr>
      else Inl (RuntimeError ''Sizes of tensors must match except in dimension 1''))"

subsection \<open>Running metrics\<close>

text \<open>
  Modelled from the spec: the class \<^verbatim>\<open>AverageMeter\<close> of \<^verbatim>\<open>util.py\<close>, which is not among
  the sources. The spec (Metric Accumulator) gives it a running sum and a running count:
  \<^verbatim>\<open>update(value, weight)\<close> adds \<^verbatim>\<open>value * weight\<close> to the sum and \<^verbatim>\<open>weight\<close> to the count,
  the average is sum / count and fails when the count is zero. A new instance starts
  empty. \<open>meter_val\<close> is the attribute \<^verbatim>\<open>val\<close> the progress line reads: the last value.
\<close>

record meter =
  meter_val :: real
  meter_sum :: real
  meter_count :: real

definition AverageMeter :: meter where
  "AverageMeter = \<lparr>meter_val = 0, meter_sum = 0, meter_count = 0\<rparr>"

definition update :: "meter \<Rightarrow> real \<Rightarrow> real \<Rightarrow> meter" where
  "update m v n = \<lparr>meter_val = v, meter_sum = meter_sum m + v * n, meter_count = meter_count m + n\<rparr>"

definition avg :: "meter \<Rightarrow> error + real" where
  "avg m = (if meter_count m = 0 then Inl ZeroDivisionError else Inr (meter_sum m / meter_count m))"

subsection \<open>What the script imports\<close>

text \<open>
  One item of the data loader: the two augmented views, the labels, and the two
  durations the loop measures around it with \<^verbatim>\<open>time.time()\<close> (waiting for the data, and
  the whole step), which are inputs of the model.
\<close>

record 'x batch =
  images0 :: "'x tensor"
  images1 :: "'x tensor"
  labels :: "int list"
  data_seconds :: real
  batch_seconds :: real

text \<open>
  The functions and classes the script imports from \<^verbatim>\<open>torch\<close>, \<^verbatim>\<open>rf_dataset\<close>,
  \<^verbatim>\<open>networks.resnet_big\<close>, \<^verbatim>\<open>losses\<close> and \<^verbatim>\<open>util\<close> are parameters, collected in one record.
  \<open>'m\<close> is the encoder with its parameters, \<open>'o\<close> the optimizer, \<open>'d\<close> a dataset, \<open>'l\<close> a
  data loader, \<open>'x\<close> one input sample of a view, \<open>'e\<close> one embedding. \<open>batches l e\<close> is what
  iterating the loader yields during epoch \<open>e\<close>. The criterion takes the paired features
  and optional labels (\<^verbatim>\<open>labels=None\<close> by default). \<open>backward_step\<close> is
  \<^verbatim>\<open>optimizer.zero_grad(); loss.backward(); optimizer.step()\<close> for the loss of a batch.
  Moving a tensor or a module to the GPU does not change its value and is not modelled.
\<close>

record ('m, 'o, 'd, 'l, 'x, 'e) env =
  cuda_is_available :: bool
  cuda_device_count :: int
  SPDataset :: "string option \<Rightarrow> error + 'd"
  DataLoader :: "'d \<Rightarrow> int \<Rightarrow> int \<Rightarrow> error + 'l"
  batches :: "'l \<Rightarrow> int \<Rightarrow> 'x batch list"
  CustomCNN :: 'm
  CustomCNNmini :: 'm
  CustomCNNminidrop :: 'm
  SupConResNet :: "string \<Rightarrow> error + 'm"
  SupConLoss :: "real \<Rightarrow> ('e list) tensor \<Rightarrow> int list option \<Rightarrow> error + real"
  DataParallel :: "'m \<Rightarrow> 'm"
  train_mode :: "'m \<Rightarrow> 'm"
  forward :: "'m \<Rightarrow> 'x tensor \<Rightarrow> error + 'e tensor"
  set_optimizer :: "opt \<Rightarrow> 'm \<Rightarrow> 'o"
  adjust_learning_rate :: "opt \<Rightarrow> 'o \<Rightarrow> int \<Rightarrow> 'o"
  warmup_learning_rate :: "opt \<Rightarrow> int \<Rightarrow> nat \<Rightarrow> nat \<Rightarrow> 'o \<Rightarrow> 'o"
  backward_step :: "'m \<Rightarrow> 'o \<Rightarrow> 'x batch \<Rightarrow> 'm \<times> 'o"
  current_lr :: "'o \<Rightarrow> real"
  epoch_seconds :: "int \<Rightarrow> real"

type_synonym 'e criterion = "('e list) tensor \<Rightarrow> int list option \<Rightarrow> error + real"

section \<open>\<^verbatim>\<open>set_loader\<close> and \<^verbatim>\<open>set_model\<close>\<close>

text \<open>The transform pipeline of the \<^verbatim>\<open>'sp'\<close> branch is a value passed to the dataset and
  has no effect of its own; every other dataset value raises.\<close>

definition set_loader ::
  "('m, 'o, 'd, 'l, 'x, 'e) env \<Rightarrow> opt \<Rightarrow> (('m, 'o) event, 'l) run" where
  "set_loader env opt =
     (if dataset opt = ''sp''
      then bind_run (emit (OpenDataset (data_folder opt))) (\<lambda>_.
           bind_run (lift_err (SPDataset env (data_folder opt))) (\<lambda>train_dataset.
           bind_run (emit (BuildLoader (batch_size opt) (num_workers opt))) (\<lambda>_.
           lift_err (DataLoader env train_dataset (batch_size opt) (num_workers opt)))))
      else raise_run (ValueError (''dataset not supported: '' @ dataset opt)))"

text \<open>The message of line 127, as UTF-8 bytes: five CJK characters meaning
  "model not found", followed by the model name.\<close>

definition model_not_found :: "string \<Rightarrow> string" where
  "model_not_found name =
     [CHR 0xE6, CHR 0xB2, CHR 0xA1, CHR 0xE6, CHR 0x89, CHR 0xBE, CHR 0xE5, CHR 0x88, CHR 0xB0,
      CHR 0xE6, CHR 0xA8, CHR 0xA1, CHR 0xE5, CHR 0x9E, CHR 0x8B] @ name"

text \<open>
  Lines 119 to 129: the local variable \<^verbatim>\<open>model\<close> is assigned in every branch but the
  last one of the \<^verbatim>\<open>'sp'\<close> case, which only prints; \<open>None\<close> is the unassigned variable.
\<close>

definition select_model ::
  "('m, 'o, 'd, 'l, 'x, 'e) env \<Rightarrow> opt \<Rightarrow> (('m, 'o) event, 'm option) run" where
  "select_model env opt =
     (if dataset opt = ''sp'' then
        (if model opt = ''CustomCNN''
         then bind_run (emit (BuildModel ''CustomCNN'')) (\<lambda>_. return_run (Some (CustomCNN env)))
         else if model opt = ''CustomCNNmini''
         then bind_run (emit (BuildModel ''CustomCNNmini'')) (\<lambda>_. return_run (Some (CustomCNNmini env)))
         else if model opt = ''CustomCNNminidrop''
         then bind_run (emit (BuildModel ''CustomCNNminidrop'')) (\<lambda>_. return_run (Some (CustomCNNminidrop env)))
         else bind_run (emit (PrintLine (model_not_found (model opt)))) (\<lambda>_. return_run None))
      else bind_run (lift_err (SupConResNet env (model opt))) (\<lambda>m.
           bind_run (emit (BuildModel (model opt))) (\<lambda>_. return_run (Some m))))"

text \<open>
  The rest of \<^verbatim>\<open>set_model\<close>. The name \<^verbatim>\<open>apex\<close> is never imported, so the \<^verbatim>\<open>syncBN\<close> branch
  raises \<^verbatim>\<open>NameError\<close> when the callee \<^verbatim>\<open>apex.parallel.convert_syncbn_model\<close> is evaluated,
  before its argument. Every later use of \<^verbatim>\<open>model\<close> reads the local variable.
\<close>

definition set_model ::
  "('m, 'o, 'd, 'l, 'x, 'e) env \<Rightarrow> opt \<Rightarrow> (('m, 'o) event, 'm \<times> 'e criterion) run" where
  "set_model env opt =
     bind_run (select_model env opt) (\<lambda>mv.
     bind_run (emit (BuildCriterion (temp opt))) (\<lambda>_.
     bind_run (if syncBN opt then raise_run (NameError ''apex'') else return_run mv) (\<lambda>mv1.
     bind_run (if cuda_is_available env
               then bind_run (if 1 < cuda_device_count env
                              then lift_err (bind_err (read_local ''model'' mv1)
                                               (\<lambda>m. Inr (Some (DataParallel env m))))
                              else return_run mv1) (\<lambda>mv2.
                    lift_err (bind_err (read_local ''model'' mv2) (\<lambda>m. Inr (Some m))))
               else return_run mv1) (\<lambda>mv3.
     lift_err (bind_err (read_local ''model'' mv3) (\<lambda>m. Inr (m, SupConLoss env (temp opt))))))))"


section \<open>One epoch: \<^verbatim>\<open>train\<close>\<close>

text \<open>
  Lines 156 to 165, the paired-view batch assembler: the two views are concatenated
  along the batch dimension, the encoder runs once on the result, and the embeddings are
  split into two parts of \<^verbatim>\<open>bsz\<close> rows each, where \<^verbatim>\<open>bsz\<close> is the number of labels.
  \<open>enc\<close> is the encoder in its current state.
\<close>

definition encode_views ::
  "('x tensor \<Rightarrow> error + 'e tensor) \<Rightarrow> 'x tensor \<Rightarrow> 'x tensor \<Rightarrow> int list
     \<Rightarrow> error + 'e tensor \<times> 'e tensor" where
  "encode_views enc v0 v1 labs =
     bind_err (torch_cat0 v0 v1) (\<lambda>images.
     let bsz = length labs in
     bind_err (enc images) (\<lambda>features.
     bind_err (torch_split features [bsz, bsz]) unpack2))"

text \<open>Lines 167 to 170: the objective is chosen by the method's name. With any other
  name \<^verbatim>\<open>loss\<close> stays unassigned and line 172 raises when it reads it.\<close>

definition compute_loss ::
  "'e criterion \<Rightarrow> string \<Rightarrow> ('e list) tensor \<Rightarrow> int list \<Rightarrow> error + real" where
  "compute_loss criterion meth features labs =
     (if meth = ''SupCon'' then criterion features (Some labs)
      else if meth = ''SimCLR'' then criterion features None
      else Inl (UnboundLocalError ''loss''))"

text \<open>Lines 156 to 170 together: the loss of one batch under the encoder state \<open>m\<close>.
  Line 166 pairs the two halves before the objective sees them.\<close>

definition batch_loss ::
  "('m, 'o, 'd, 'l, 'x, 'e) env \<Rightarrow> 'e criterion \<Rightarrow> string \<Rightarrow> 'm \<Rightarrow> 'x batch \<Rightarrow> error + real" where
  "batch_loss env criterion meth m b =
     bind_err (encode_views (forward env m) (images0 b) (images1 b) (labels b)) (\<lambda>(f1, f2).
     bind_err (pair_views f1 f2) (\<lambda>features.
     compute_loss criterion meth features (labels b)))"

text \<open>The state of the loop in \<^verbatim>\<open>train\<close>: encoder, optimizer and the three meters.\<close>

record ('m, 'o) train_state =
  ts_model :: 'm
  ts_optimizer :: 'o
  batch_time :: meter
  data_time :: meter
  losses :: meter

text \<open>
  The body of the loop for batch \<open>idx\<close> of \<open>n\<close> in epoch \<open>epoch\<close> (lines 154 to 187).
  \<^verbatim>\<open>warmup_learning_rate\<close> is called between the concatenation and the forward pass;
  it touches the optimizer only, so it is written first here.
\<close>

definition train_batch ::
  "('m, 'o, 'd, 'l, 'x, 'e) env \<Rightarrow> opt \<Rightarrow> 'e criterion \<Rightarrow> int \<Rightarrow> nat \<Rightarrow> nat \<Rightarrow> 'x batch
     \<Rightarrow> ('m, 'o) train_state \<Rightarrow> (('m, 'o) event, ('m, 'o) train_state) run" where
  "train_batch env opt criterion epoch n idx b st =
     bind_run (emit (FetchBatch epoch idx)) (\<lambda>_.
     let dt = update (data_time st) (data_seconds b) 1;
         bsz = length (labels b);
         o1 = warmup_learning_rate env opt epoch idx n (ts_optimizer st)
     in
     bind_run (lift_err (batch_loss env criterion (method_arg opt) (ts_model st) b)) (\<lambda>loss.
     let ls = update (losses st) loss (real bsz);
         (m1, o2) = backward_step env (ts_model st) o1 b
     in
     bind_run (emit (OptimStep epoch idx)) (\<lambda>_.
     let bt = update (batch_time st) (batch_seconds b) 1;
         st1 = \<lparr>ts_model = m1, ts_optimizer = o2, batch_time = bt, data_time = dt, losses = ls\<rparr>
     in
     if print_freq opt = 0 then raise_run ZeroDivisionError
     else if (int idx + 1) mod print_freq opt = 0
     then bind_run (lift_err (avg bt)) (\<lambda>bt_avg.
          bind_run (lift_err (avg dt)) (\<lambda>dt_avg.
          bind_run (lift_err (avg ls)) (\<lambda>ls_avg.
          bind_run (emit (Progress epoch (idx + 1) n (meter_val bt) bt_avg
                            (meter_val dt) dt_avg (meter_val ls) ls_avg)) (\<lambda>_.
          return_run st1))))
     else return_run st1)))"

text \<open>\<^verbatim>\<open>for idx, (images, labels) in enumerate(train_loader)\<close>: the loop stops at the first
  exception.\<close>

fun train_loop ::
  "('m, 'o, 'd, 'l, 'x, 'e) env \<Rightarrow> opt \<Rightarrow> 'e criterion \<Rightarrow> int \<Rightarrow> nat \<Rightarrow> nat \<Rightarrow> 'x batch list
     \<Rightarrow> ('m, 'o) train_state \<Rightarrow> (('m, 'o) event, ('m, 'o) train_state) run" where
  "train_loop env opt criterion epoch n idx [] st = return_run st"
| "train_loop env opt criterion epoch n idx (b # bs) st =
     bind_run (train_batch env opt criterion epoch n idx b st)
       (train_loop env opt criterion epoch n (Suc idx) bs)"

text \<open>
  \<^verbatim>\<open>train\<close>: the encoder is put in training mode and the three meters are created at
  the top of the function (lines 146 to 150), that is once per call; the result is the
  average of the loss meter, with the encoder and optimizer as the loop left them.
\<close>

definition train_start ::
  "('m, 'o, 'd, 'l, 'x, 'e) env \<Rightarrow> 'm \<Rightarrow> 'o \<Rightarrow> ('m, 'o) train_state" where
  "train_start env m optimizer =
     \<lparr>ts_model = train_mode env m, ts_optimizer = optimizer,
      batch_time = AverageMeter, data_time = AverageMeter, losses = AverageMeter\<rparr>"

definition train ::
  "('m, 'o, 'd, 'l, 'x, 'e) env \<Rightarrow> 'l \<Rightarrow> 'm \<Rightarrow> 'e criterion \<Rightarrow> 'o \<Rightarrow> int \<Rightarrow> opt
     \<Rightarrow> (('m, 'o) event, real \<times> 'm \<times> 'o) run" where
  "train env train_loader m criterion optimizer epoch opt =
     (let bs = batches env train_loader epoch
      in bind_run (train_loop env opt criterion epoch (length bs) 0 bs
                     (train_start env m optimizer)) (\<lambda>st.
         bind_run (lift_err (avg (losses st))) (\<lambda>a.
         return_run (a, ts_model st, ts_optimizer st))))"

section \<open>The driver: \<^verbatim>\<open>main\<close>\<close>

text \<open>The body of the epoch loop (lines 204 to 217). \<^verbatim>\<open>epoch % opt.save_freq\<close> raises
  when \<^verbatim>\<open>save_freq\<close> is zero.\<close>

definition ckpt_file :: "opt \<Rightarrow> int \<Rightarrow> string" where
  "ckpt_file opt epoch = path_join (save_folder opt) (''ckpt_epoch_'' @ str_int epoch @ ''.pth'')"

definition last_file :: "opt \<Rightarrow> string" where
  "last_file opt = path_join (save_folder opt) ''last.pth''"

definition epoch_body ::
  "('m, 'o, 'd, 'l, 'x, 'e) env \<Rightarrow> opt \<Rightarrow> 'l \<Rightarrow> 'e criterion \<Rightarrow> int \<Rightarrow> 'm \<times> 'o
     \<Rightarrow> (('m, 'o) event, 'm \<times> 'o) run" where
  "epoch_body env opt train_loader criterion epoch mo =
     (case mo of (m, optimizer) \<Rightarrow>
     bind_run (emit (AdjustLR epoch)) (\<lambda>_.
     let o1 = adjust_learning_rate env opt optimizer epoch in
     bind_run (train env train_loader m criterion o1 epoch opt) (\<lambda>(loss, m1, o2).
     bind_run (emit (EpochTime epoch (epoch_seconds env epoch))) (\<lambda>_.
     bind_run (emit (LogValue ''loss'' loss epoch)) (\<lambda>_.
     bind_run (emit (LogValue ''learning_rate'' (current_lr env o2) epoch)) (\<lambda>_.
     if save_freq opt = 0 then raise_run ZeroDivisionError
     else if epoch mod save_freq opt = 0
     then bind_run (emit (SaveModel m1 o2 epoch (ckpt_file opt epoch))) (\<lambda>_. return_run (m1, o2))
     else return_run (m1, o2)))))))"

fun epoch_loop ::
  "('m, 'o, 'd, 'l, 'x, 'e) env \<Rightarrow> opt \<Rightarrow> 'l \<Rightarrow> 'e criterion \<Rightarrow> int list \<Rightarrow> 'm \<times> 'o
     \<Rightarrow> (('m, 'o) event, 'm \<times> 'o) run" where
  "epoch_loop env opt train_loader criterion [] mo = return_run mo"
| "epoch_loop env opt train_loader criterion (epoch # rest) mo =
     bind_run (epoch_body env opt train_loader criterion epoch mo)
       (epoch_loop env opt train_loader criterion rest)"

text \<open>\<^verbatim>\<open>main\<close>: \<^verbatim>\<open>range(1, opt.epochs + 1)\<close> is the list \<open>[1..epochs opt]\<close>. The result is
  the trace of events and \<open>Inr ()\<close> for a normal end or \<open>Inl\<close> the exception that ended
  the process.\<close>

definition main ::
  "('m, 'o, 'd, 'l, 'x, 'e) env \<Rightarrow> (real \<Rightarrow> string) \<Rightarrow> arg list \<Rightarrow> (('m, 'o) event, unit) run" where
  "main env repr_float argv =
     bind_run (parse_option repr_float argv) (\<lambda>opt.
     bind_run (set_loader env opt) (\<lambda>train_loader.
     bind_run (set_model env opt) (\<lambda>(m, criterion).
     bind_run (emit BuildOptimizer) (\<lambda>_.
     let optimizer = set_optimizer env opt m in
     bind_run (emit (OpenLogger (tb_folder opt))) (\<lambda>_.
     bind_run (epoch_loop env opt train_loader criterion [1..epochs opt] (m, optimizer))
       (\<lambda>(m1, o1).
     emit (SaveModel m1 o1 (epochs opt) (last_file opt))))))))"


section \<open>A small instance\<close>

text \<open>
  An instance of the external collaborators on which the model runs by rewriting:
  the loader yields one batch of one sample per epoch, whose two views hold the epoch
  number; the encoder is the identity; the criterion returns the first entry of the
  first pair, so the loss of epoch \<open>e\<close> is \<open>e\<close>.
\<close>

definition sample_batch :: "int \<Rightarrow> real batch" where
  "sample_batch e =
     \<lparr>images0 = \<lparr>inner_shape = [], rows = [real_of_int e]\<rparr>,
      images1 = \<lparr>inner_shape = [], rows = [real_of_int e]\<rparr>,
      labels = [0], data_seconds = 1, batch_seconds = 2\<rparr>"

definition sample_criterion :: "real criterion" where
  "sample_criterion features labs =
     (case rows features of
        (x # _) # _ \<Rightarrow> Inr x
      | _ \<Rightarrow> Inl (LibraryError ''no features''))"

definition sample_env :: "(nat, nat, unit, unit, real, real) env" where
  "sample_env =
     \<lparr>cuda_is_available = False, cuda_device_count = 0,
      SPDataset = (\<lambda>_. Inr ()), DataLoader = (\<lambda>_ _ _. Inr ()),
      batches = (\<lambda>_ e. [sample_batch e]),
      CustomCNN = 0, CustomCNNmini = 1, CustomCNNminidrop = 2,
      SupConResNet = (\<lambda>_. Inl (LibraryError ''unknown architecture'')),
      SupConLoss = (\<lambda>_. sample_criterion),
      DataParallel = (\<lambda>m. m), train_mode = (\<lambda>m. m),
      forward = (\<lambda>_ t. Inr t),
      set_optimizer = (\<lambda>_ _. 0),
      adjust_learning_rate = (\<lambda>_ optimizer _. optimizer),
      warmup_learning_rate = (\<lambda>_ _ _ _ optimizer. optimizer),
      backward_step = (\<lambda>m optimizer _. (Suc m, Suc optimizer)),
      current_lr = (\<lambda>_. 1),
      epoch_seconds = (\<lambda>_. 3)\<rparr>"

definition sample_repr :: "real \<Rightarrow> string" where
  "sample_repr x = ''x''"


section \<open>Notions of the specification\<close>




text \<open>Projections of a trace: where an epoch starts and where a checkpoint is written;
  and the loss logged per epoch.\<close>

datatype mark = Started int | Saved int string

fun mark_of :: "('m, 'o) event \<Rightarrow> mark option" where
  "mark_of (AdjustLR e) = Some (Started e)"
| "mark_of (SaveModel m optimizer e file) = Some (Saved e file)"
| "mark_of _ = None"

definition marks :: "('m, 'o) event list \<Rightarrow> mark list" where
  "marks evs = List.map_filter mark_of evs"

fun loss_of :: "('m, 'o) event \<Rightarrow> (int \<times> real) option" where
  "loss_of (LogValue name v e) = (if name = ''loss'' then Some (e, v) else None)"
| "loss_of _ = None"

definition logged_losses :: "('m, 'o) event list \<Rightarrow> (int \<times> real) list" where
  "logged_losses evs = List.map_filter loss_of evs"

fun saved_of :: "mark \<Rightarrow> (int \<times> string) option" where
  "saved_of (Saved e file) = Some (e, file)"
| "saved_of (Started e) = None"

definition saved_files :: "mark list \<Rightarrow> (int \<times> string) list" where
  "saved_files ms = List.map_filter saved_of ms"




section \<open>Option parsing: properties\<close>

lemma bind_err_Inl [simp]: "bind_err (Inl e) f = Inl e"
  by (simp add: bind_err_def)

lemma bind_err_Inr [simp]: "bind_err (Inr a) f = f a"
  by (simp add: bind_err_def)

lemma bind_err_eq_Inr: "bind_err r f = Inr b \<longleftrightarrow> (\<exists>a. r = Inr a \<and> f a = Inr b)"
  by (cases r) simp_all

lemma store_error: "store ns a = Inl e \<Longrightarrow> e = SystemExit 2"
  by (cases a) (auto split: if_splits)

lemma store_warm: "store ns0 a = Inr ns \<Longrightarrow> warm ns = (warm ns0 \<or> a = Arg_warm)"
  by (cases a) (auto split: if_splits)


lemma parse_args_from_warm:
  "parse_args_from ns0 argv = Inr ns \<Longrightarrow> warm ns = (warm ns0 \<or> Arg_warm \<in> set argv)"
proof (induction argv arbitrary: ns0)
  case Nil
  then show ?case by simp
next
  case (Cons a as)
  then obtain ns1 where s: "store ns0 a = Inr ns1" and r: "parse_args_from ns1 as = Inr ns"
    by (auto simp: bind_err_eq_Inr)
  from Cons.IH [OF r] store_warm [OF s] show ?case by auto
qed


lemma parse_args_from_error: "parse_args_from ns0 argv = Inl e \<Longrightarrow> e = SystemExit 2"
proof (induction argv arbitrary: ns0)
  case Nil
  then show ?case by simp
next
  case (Cons a as)
  show ?case
  proof (cases "store ns0 a")
    case (Inl e')
    with Cons.prems store_error [OF Inl] show ?thesis by simp
  next
    case (Inr ns1)
    with Cons.prems Cons.IH [of ns1] show ?thesis by simp
  qed
qed

lemma parse_args_from_bad_dataset:
  "Arg_dataset d \<in> set argv \<Longrightarrow> d \<notin> {''rf'', ''sp''} \<Longrightarrow> parse_args_from ns0 argv = Inl (SystemExit 2)"
proof (induction argv arbitrary: ns0)
  case Nil
  then show ?case by simp
next
  case (Cons a as)
  show ?case
  proof (cases "store ns0 a")
    case (Inl e)
    with store_error [OF Inl] show ?thesis by simp
  next
    case (Inr ns1)
    with Cons.prems have "a \<noteq> Arg_dataset d" by auto
    with Cons.prems have "Arg_dataset d \<in> set as" by simp
    from Cons.IH [OF this Cons.prems(2)] Inr show ?thesis by simp
  qed
qed

lemma parse_args_warm: "parse_args argv = Inr ns \<Longrightarrow> warm ns = (Arg_warm \<in> set argv)"
  using parse_args_from_warm [of defaults argv ns] by (simp add: parse_args_def defaults_def)



lemma if_Inl_eq_Inr: "((if c then Inl e else r) = Inr x) = (\<not> c \<and> r = Inr x)"
  by simp

lemma make_opt_fields:
  "batch_size (make_opt rf ns ms w) = batch_size ns"
  "epochs (make_opt rf ns ms w) = epochs ns"
  "save_freq (make_opt rf ns ms w) = save_freq ns"
  "print_freq (make_opt rf ns ms w) = print_freq ns"
  "dataset (make_opt rf ns ms w) = dataset ns"
  "method_arg (make_opt rf ns ms w) = method_arg ns"
  "model (make_opt rf ns ms w) = model ns"
  "cosine (make_opt rf ns ms w) = cosine ns"
  "learning_rate (make_opt rf ns ms w) = learning_rate ns"
  "lr_decay_rate (make_opt rf ns ms w) = lr_decay_rate ns"
  "mean (make_opt rf ns ms w) = mean ns"
  "std (make_opt rf ns ms w) = std ns"
  "data_folder (make_opt rf ns ms w) = (case data_folder ns of None \<Rightarrow> Some ''./datasets/'' | Some d \<Rightarrow> Some d)"
  "warm (make_opt rf ns ms w) = (256 < batch_size ns \<or> warm ns)"
  "lr_decay_epochs (make_opt rf ns ms w) = ms"
  "warmup_from (make_opt rf ns ms w) = (if 256 < batch_size ns \<or> warm ns then Some (1 / 100) else None)"
  "warm_epochs (make_opt rf ns ms w) = (if 256 < batch_size ns \<or> warm ns then Some 10 else None)"
  "warmup_to (make_opt rf ns ms w) = w"
  "syncBN (make_opt rf ns ms w) = syncBN ns"
  "temp (make_opt rf ns ms w) = temp ns"
  "num_workers (make_opt rf ns ms w) = num_workers ns"
  by (simp_all add: make_opt_def Let_def namespace.defs opt.defs)

lemma parse_option_value_Inr:
  assumes "parse_option_value repr_float argv = Inr opt"
  obtains ns w where "parse_args argv = Inr ns"
    and "dataset ns = ''rf'' \<longrightarrow> data_folder ns \<noteq> None \<and> mean ns \<noteq> None \<and> std ns \<noteq> None"
    and "int_each (split_comma (lr_decay_epochs_str ns)) = Inr (lr_decay_epochs opt)"
    and "warm opt \<longrightarrow> (\<exists>r. w = Some r \<and> warmup_end ns = Inr r)"
    and "\<not> warm opt \<longrightarrow> w = None"
    and "opt = make_opt repr_float ns (lr_decay_epochs opt) w"
proof -
  from assms obtain ns ms w where a: "parse_args argv = Inr ns"
    and b: "\<not> (dataset ns \<in> set [''path'', ''rf''] \<and>
          \<not> (data_folder ns \<noteq> None \<and> mean ns \<noteq> None \<and> std ns \<noteq> None))"
    and c: "int_each (split_comma (lr_decay_epochs_str ns)) = Inr ms"
    and d: "(if (if batch_size ns > 256 then True else warm ns) then bind_err (warmup_end ns) (\<lambda>r. Inr (Some r)) else Inr None) = Inr w"
    and e: "opt = make_opt repr_float ns ms w"
    unfolding parse_option_value_def bind_err_eq_Inr if_Inl_eq_Inr by blast
  from e have ms: "lr_decay_epochs opt = ms" and w: "warm opt = (256 < batch_size ns \<or> warm ns)"
    by (simp_all add: make_opt_fields)
  from b have b': "dataset ns = ''rf'' \<longrightarrow> data_folder ns \<noteq> None \<and> mean ns \<noteq> None \<and> std ns \<noteq> None"
    by auto
  from d w have d1: "warm opt \<longrightarrow> (\<exists>r. w = Some r \<and> warmup_end ns = Inr r)"
    by (auto simp: bind_err_eq_Inr split: if_splits)
  from d w have d2: "\<not> warm opt \<longrightarrow> w = None"
    by (auto split: if_splits)
  show ?thesis
    using that [of ns w] a b' c d1 d2 e ms by simp
qed

lemma parse_option_Inr:
  "parse_option repr_float argv = (es, Inr opt) \<longleftrightarrow>
     parse_option_value repr_float argv = Inr opt \<and>
     es = [EnsureDir (tb_folder opt), EnsureDir (save_folder opt)]"
  by (auto simp: parse_option_def split: sum.splits)

lemma parse_option_Inl:
  "parse_option repr_float argv = (es, Inl e) \<longleftrightarrow>
     parse_option_value repr_float argv = Inl e \<and> es = []"
  by (auto simp: parse_option_def split: sum.splits)

lemmas parse_eval =
  parse_option_def parse_option_value_def parse_args_def defaults_def make_opt_def
  base_model_name_def warmup_end_def cosine_warmup_to_def sample_repr_def
  py_int_def strip_def is_space_def is_digit_def digits_value_def digit_val_def
  str_int_def str_nat.simps path_join_def namespace.defs opt.defs Let_def

subsection \<open>Claims about option parsing\<close>

text \<open>
  Claim C7. For every parsed configuration with \<^verbatim>\<open>batch_size\<close> greater than 256 the
  warmup flag is on after option parsing, whether or not \<^verbatim>\<open>--warm\<close> was given; for
  \<^verbatim>\<open>batch_size\<close> at most 256 the flag is on exactly when \<^verbatim>\<open>--warm\<close> was given.
\<close>

theorem warm_forced_above_256:
  assumes "parse_option repr_float argv = (es, Inr opt)"
  shows "(256 < batch_size opt \<longrightarrow> warm opt) \<and>
         (batch_size opt \<le> 256 \<longrightarrow> warm opt = (Arg_warm \<in> set argv))"
proof -
  from assms have "parse_option_value repr_float argv = Inr opt"
    by (simp add: parse_option_Inr)
  then obtain ns w where ns: "parse_args argv = Inr ns"
    and opt: "opt = make_opt repr_float ns (lr_decay_epochs opt) w"
    by (rule parse_option_value_Inr)
  have "batch_size opt = batch_size ns" "warm opt = (256 < batch_size ns \<or> warm ns)"
    by (subst opt, simp add: make_opt_fields)+
  with parse_args_warm [OF ns] show ?thesis by auto
qed

text \<open>A batch size of 512 without \<^verbatim>\<open>--warm\<close>: the flag is on.\<close>

theorem warm_forced_above_256_witness:
  "\<exists>es opt. parse_option sample_repr [Arg_batch_size 512] = (es :: (nat, nat) event list, Inr opt)
     \<and> 256 < batch_size opt \<and> warm opt \<and> Arg_warm \<notin> set [Arg_batch_size 512]"
proof -
  have "\<exists>es opt. parse_option sample_repr [Arg_batch_size 512] = (es :: (nat, nat) event list, Inr opt)
     \<and> batch_size opt = 512"
    by (simp add: parse_eval)
  then obtain es :: "(nat, nat) event list" and opt
    where p: "parse_option sample_repr [Arg_batch_size 512] = (es, Inr opt)"
      and b: "batch_size opt = 512" by blast
  from warm_forced_above_256 [OF p] b have "warm opt" by simp
  with p b show ?thesis by auto
qed






section \<open>Setting up: properties of \<^verbatim>\<open>set_loader\<close>, \<^verbatim>\<open>set_model\<close> and the start of \<^verbatim>\<open>main\<close>\<close>

lemma bind_run_emit: "bind_run (emit v) f = (v # fst (f ()), snd (f ()))"
  by (simp add: bind_run_def emit_def split: prod.splits)

lemma bind_run_return: "bind_run (return_run a) f = f a"
  by (simp add: bind_run_def return_run_def split: prod.splits)

lemma bind_run_raise: "bind_run (raise_run e) f = ([], Inl e)"
  by (simp add: bind_run_def raise_run_def)

lemma bind_run_lift_Inl: "bind_run (lift_err (Inl e)) f = ([], Inl e)"
  by (simp add: bind_run_def lift_err_def)

lemma bind_run_lift_Inr: "bind_run (lift_err (Inr a)) f = f a"
  by (simp add: bind_run_def lift_err_def split: prod.splits)

lemma bind_run_Inl: "bind_run (es, Inl e) f = (es, Inl e)"
  by (simp add: bind_run_def)

lemma bind_run_Inr: "bind_run (es, Inr a) f = (es @ fst (f a), snd (f a))"
  by (simp add: bind_run_def split: prod.splits)

lemmas bind_run_simps =
  bind_run_emit bind_run_return bind_run_raise bind_run_lift_Inl bind_run_lift_Inr
  bind_run_Inl bind_run_Inr


lemma snd_bind_run:
  "snd (bind_run r f) = (case snd r of Inl e \<Rightarrow> Inl e | Inr a \<Rightarrow> snd (f a))"
  by (cases r) (auto simp: bind_run_def split: sum.splits prod.splits)

lemma set_loader_unsupported:
  "dataset opt \<noteq> ''sp'' \<Longrightarrow>
     set_loader env opt = ([], Inl (ValueError (''dataset not supported: '' @ dataset opt)))"
  by (simp add: set_loader_def raise_run_def)

lemma main_parse_error:
  "parse_option_value repr_float argv = Inl e \<Longrightarrow> main env repr_float argv = ([], Inl e)"
  by (simp add: main_def parse_option_def bind_run_Inl)

lemma main_unsupported:
  assumes "parse_option_value repr_float argv = Inr opt" and "dataset opt \<noteq> ''sp''"
  shows "main env repr_float argv =
           ([EnsureDir (tb_folder opt), EnsureDir (save_folder opt)],
            Inl (ValueError (''dataset not supported: '' @ dataset opt)))"
  using assms by (simp add: main_def parse_option_def bind_run_Inr set_loader_unsupported bind_run_Inl)

lemma main_unsupported_trace:
  assumes "parse_args argv = Inr ns" and "dataset ns \<noteq> ''sp''"
  shows "(\<exists>e. snd (main env repr_float argv) = Inl e) \<and>
         (\<forall>ev \<in> set (fst (main env repr_float argv)). \<exists>p. ev = EnsureDir p)"
proof (cases "parse_option_value repr_float argv")
  case (Inl e)
  then show ?thesis by (simp add: main_parse_error)
next
  case (Inr opt)
  then obtain ns' w where "parse_args argv = Inr ns'"
    and opt: "opt = make_opt repr_float ns' (lr_decay_epochs opt) w"
    by (rule parse_option_value_Inr)
  with assms have "ns' = ns" by simp
  have "dataset opt = dataset ns'"
    by (subst opt, simp add: make_opt_fields)
  with \<open>ns' = ns\<close> assms have "dataset opt \<noteq> ''sp''" by simp
  from main_unsupported [OF Inr this, of env] show ?thesis by simp
qed

text \<open>
  Claim C9. For every configuration with dataset \<^verbatim>\<open>'sp'\<close> and a model name outside
  \<^verbatim>\<open>CustomCNN\<close>, \<^verbatim>\<open>CustomCNNmini\<close>, \<^verbatim>\<open>CustomCNNminidrop\<close>, the selection branch of
  \<^verbatim>\<open>set_model\<close> raises nothing: it prints the message and leaves \<^verbatim>\<open>model\<close> unassigned.
  \<^verbatim>\<open>set_model\<close> goes on to build the criterion and only then fails, on the first read
  of the unassigned variable (or on the undefined name \<^verbatim>\<open>apex\<close> when \<^verbatim>\<open>syncBN\<close> is set).
\<close>

theorem unknown_model_reported_not_rejected:
  assumes "dataset opt = ''sp''"
    and "model opt \<notin> {''CustomCNN'', ''CustomCNNmini'', ''CustomCNNminidrop''}"
  shows "select_model env opt = ([PrintLine (model_not_found (model opt))], Inr None) \<and>
         set_model env opt =
           ([PrintLine (model_not_found (model opt)), BuildCriterion (temp opt)],
            Inl (if syncBN opt then NameError ''apex'' else UnboundLocalError ''model''))"
proof -
  from assms have s: "select_model env opt = ([PrintLine (model_not_found (model opt))], Inr None)"
    by (simp add: select_model_def bind_run_simps return_run_def)
  then have "set_model env opt =
           ([PrintLine (model_not_found (model opt)), BuildCriterion (temp opt)],
            Inl (if syncBN opt then NameError ''apex'' else UnboundLocalError ''model''))"
    by (simp add: set_model_def bind_run_simps read_local_def lift_err_def return_run_def)
  with s show ?thesis by simp
qed

theorem unknown_model_reported_not_rejected_witness:
  "set_model sample_env (make_opt sample_repr (defaults\<lparr>model := ''resnet50''\<rparr>) [700, 800, 900] None) =
     ([PrintLine (model_not_found ''resnet50''), BuildCriterion (7 / 100)],
      Inl (UnboundLocalError ''model''))"
  using unknown_model_reported_not_rejected
    [of "make_opt sample_repr (defaults\<lparr>model := ''resnet50''\<rparr>) [700, 800, 900] None" sample_env]
  by (simp add: make_opt_fields defaults_def)

text \<open>
  Claim C4. The parser accepts the dataset \<^verbatim>\<open>'rf'\<close>, and \<^verbatim>\<open>parse_option\<close> returns for it
  only if \<^verbatim>\<open>data_folder\<close>, \<^verbatim>\<open>mean\<close> and \<^verbatim>\<open>std\<close> were given. For every options record with
  dataset \<^verbatim>\<open>'rf'\<close>, \<^verbatim>\<open>set_loader\<close> raises "dataset not supported: rf" before doing
  anything else. So every run whose dataset is \<^verbatim>\<open>'rf'\<close> ends with an exception, and its
  only effects are the directory creations of \<^verbatim>\<open>parse_option\<close>: no dataset is opened,
  no loader built, no batch fetched, no step taken.
\<close>

theorem rf_dataset_never_loads:
  assumes "parse_args argv = Inr ns" and "dataset ns = ''rf''"
  shows "(dataset opt' = ''rf'' \<longrightarrow>
            set_loader env opt' = ([], Inl (ValueError ''dataset not supported: rf'')))
       \<and> (\<exists>e. snd (main env repr_float argv) = Inl e)
       \<and> (\<forall>ev \<in> set (fst (main env repr_float argv)). \<exists>p. ev = EnsureDir p)
       \<and> (parse_option repr_float argv = (es, Inr opt) \<longrightarrow>
            data_folder ns \<noteq> None \<and> mean ns \<noteq> None \<and> std ns \<noteq> None \<and>
            main env repr_float argv = (es, Inl (ValueError ''dataset not supported: rf'')))"
proof -
  have a: "dataset opt' = ''rf'' \<longrightarrow>
            set_loader env opt' = ([], Inl (ValueError ''dataset not supported: rf''))"
    using set_loader_unsupported [of opt' env] by auto
  from assms have "dataset ns \<noteq> ''sp''" by simp
  from main_unsupported_trace [OF assms(1) this]
  have b: "(\<exists>e. snd (main env repr_float argv) = Inl e)
       \<and> (\<forall>ev \<in> set (fst (main env repr_float argv)). \<exists>p. ev = EnsureDir p)" .
  have c: "data_folder ns \<noteq> None \<and> mean ns \<noteq> None \<and> std ns \<noteq> None \<and>
            main env repr_float argv = (es, Inl (ValueError ''dataset not supported: rf''))"
    if p: "parse_option repr_float argv = (es, Inr opt)"
  proof -
    from p have v: "parse_option_value repr_float argv = Inr opt"
      and es: "es = [EnsureDir (tb_folder opt), EnsureDir (save_folder opt)]"
      by (simp_all add: parse_option_Inr)
    from v obtain ns' w where n: "parse_args argv = Inr ns'"
      and r: "dataset ns' = ''rf'' \<longrightarrow> data_folder ns' \<noteq> None \<and> mean ns' \<noteq> None \<and> std ns' \<noteq> None"
      and opt: "opt = make_opt repr_float ns' (lr_decay_epochs opt) w"
      by (rule parse_option_value_Inr)
    from n assms have eq: "ns' = ns" by simp
    have "dataset opt = dataset ns'"
      by (subst opt, simp add: make_opt_fields)
    with eq assms have d: "dataset opt = ''rf''" by simp
    then have "dataset opt \<noteq> ''sp''" by simp
    from main_unsupported [OF v this] d es r eq assms show ?thesis by simp
  qed
  from a b c show ?thesis by blast
qed

theorem rf_dataset_never_loads_witness:
  "main sample_env sample_repr [Arg_dataset ''rf'', Arg_data_folder ''d'', Arg_mean ''m'', Arg_std ''s''] =
     ([EnsureDir ''./save/newSupCon/rf_tensorboard/tranSupCon_rf_CustomCNN_lr_x_decay_x_bsz_256_temp_x_trial_0'',
       EnsureDir ''./save/newSupCon/rf_models/tranSupCon_rf_CustomCNN_lr_x_decay_x_bsz_256_temp_x_trial_0''],
      Inl (ValueError ''dataset not supported: rf''))"
proof -
  let ?argv = "[Arg_dataset ''rf'', Arg_data_folder ''d'', Arg_mean ''m'', Arg_std ''s'']"
  have "\<exists>ns. parse_args ?argv = Inr ns \<and> dataset ns = ''rf''"
    by (simp add: parse_args_def defaults_def)
  then obtain ns where n: "parse_args ?argv = Inr ns" and d: "dataset ns = ''rf''" by blast
  have "\<exists>opt. parse_option sample_repr ?argv =
           ([EnsureDir ''./save/newSupCon/rf_tensorboard/tranSupCon_rf_CustomCNN_lr_x_decay_x_bsz_256_temp_x_trial_0'',
             EnsureDir ''./save/newSupCon/rf_models/tranSupCon_rf_CustomCNN_lr_x_decay_x_bsz_256_temp_x_trial_0''] :: (nat, nat) event list,
            Inr opt)"
    by (simp add: parse_eval)
  then obtain opt where p: "parse_option sample_repr ?argv =
           ([EnsureDir ''./save/newSupCon/rf_tensorboard/tranSupCon_rf_CustomCNN_lr_x_decay_x_bsz_256_temp_x_trial_0'',
             EnsureDir ''./save/newSupCon/rf_models/tranSupCon_rf_CustomCNN_lr_x_decay_x_bsz_256_temp_x_trial_0''] :: (nat, nat) event list,
            Inr opt)" by blast
  from rf_dataset_never_loads [OF n d, of _ sample_env sample_repr _ opt] p
  show ?thesis by blast
qed

text \<open>
  Claim C3. A dataset value outside the parser's choices ends the run in the parser,
  with no effect at all. A dataset value that the parser accepts and that is not
  \<^verbatim>\<open>'sp'\<close> makes \<^verbatim>\<open>set_loader\<close> raise "dataset not supported", which ends \<^verbatim>\<open>main\<close> right
  after \<^verbatim>\<open>parse_option\<close>: before the model is built and before the epoch loop. In each
  case the run ends with an exception and its only effects are directory creations.
\<close>

theorem unsupported_dataset_fails_first:
  "(Arg_dataset d \<in> set argv \<and> d \<notin> {''rf'', ''sp''} \<longrightarrow>
      main env repr_float argv = ([], Inl (SystemExit 2)))
   \<and> (parse_option repr_float argv = (es, Inr opt) \<and> dataset opt \<noteq> ''sp'' \<longrightarrow>
        set_loader env opt = ([], Inl (ValueError (''dataset not supported: '' @ dataset opt))) \<and>
        main env repr_float argv = (es, Inl (ValueError (''dataset not supported: '' @ dataset opt))) \<and>
        es = [EnsureDir (tb_folder opt), EnsureDir (save_folder opt)])
   \<and> (parse_args argv = Inr ns \<and> dataset ns \<noteq> ''sp'' \<longrightarrow>
        (\<exists>e. snd (main env repr_float argv) = Inl e) \<and>
        (\<forall>ev \<in> set (fst (main env repr_float argv)). \<exists>p. ev = EnsureDir p))"
proof -
  have a: "main env repr_float argv = ([], Inl (SystemExit 2))"
    if "Arg_dataset d \<in> set argv" "d \<notin> {''rf'', ''sp''}"
  proof -
    from that have "parse_args argv = Inl (SystemExit 2)"
      unfolding parse_args_def by (rule parse_args_from_bad_dataset)
    then have "parse_option_value repr_float argv = Inl (SystemExit 2)"
      by (simp add: parse_option_value_def)
    then show ?thesis by (rule main_parse_error)
  qed
  have b: "set_loader env opt = ([], Inl (ValueError (''dataset not supported: '' @ dataset opt))) \<and>
        main env repr_float argv = (es, Inl (ValueError (''dataset not supported: '' @ dataset opt))) \<and>
        es = [EnsureDir (tb_folder opt), EnsureDir (save_folder opt)]"
    if "parse_option repr_float argv = (es, Inr opt)" "dataset opt \<noteq> ''sp''"
    using that main_unsupported [of repr_float argv opt env]
    by (simp add: parse_option_Inr set_loader_unsupported)
  have c: "(\<exists>e. snd (main env repr_float argv) = Inl e) \<and>
        (\<forall>ev \<in> set (fst (main env repr_float argv)). \<exists>p. ev = EnsureDir p)"
    if "parse_args argv = Inr ns" "dataset ns \<noteq> ''sp''"
    using that by (rule main_unsupported_trace)
  from a b c show ?thesis by blast
qed

text \<open>The value \<^verbatim>\<open>unknown\<close> is rejected by the parser; the value \<^verbatim>\<open>rf\<close> reaches
  \<^verbatim>\<open>set_loader\<close>, which raises.\<close>

theorem unsupported_dataset_fails_first_witness:
  "main sample_env sample_repr [Arg_epochs 3, Arg_dataset ''unknown''] = ([], Inl (SystemExit 2))
   \<and> snd (main sample_env sample_repr
            [Arg_dataset ''rf'', Arg_data_folder ''d'', Arg_mean ''m'', Arg_std ''s'', Arg_epochs 3])
       = Inl (ValueError ''dataset not supported: rf'')"
proof -
  let ?argv = "[Arg_dataset ''rf'', Arg_data_folder ''d'', Arg_mean ''m'', Arg_std ''s'', Arg_epochs 3]"
  have a: "main sample_env sample_repr [Arg_epochs 3, Arg_dataset ''unknown''] = ([], Inl (SystemExit 2))"
    using unsupported_dataset_fails_first
      [of "''unknown''" "[Arg_epochs 3, Arg_dataset ''unknown'']" sample_env sample_repr]
    by simp
  have "\<exists>es opt. parse_option sample_repr ?argv = (es :: (nat, nat) event list, Inr opt)
          \<and> dataset opt = ''rf''"
    by (simp add: parse_eval)
  then obtain es :: "(nat, nat) event list" and opt
    where p: "parse_option sample_repr ?argv = (es, Inr opt)" and d: "dataset opt = ''rf''"
    by blast
  from unsupported_dataset_fails_first [of _ ?argv sample_env sample_repr es opt] p d
  have "main sample_env sample_repr ?argv = (es, Inl (ValueError (''dataset not supported: '' @ dataset opt)))"
    by simp
  with d a show ?thesis by simp
qed


section \<open>The training step: properties\<close>

lemma torch_cat0_same_shape:
  fixes a b :: "'a tensor"
  assumes "inner_shape a = inner_shape b"
  shows "torch_cat0 a b = Inr \<lparr>inner_shape = inner_shape a, rows = rows a @ rows b\<rparr>"
  using assms by (cases a; cases b) (auto simp: torch_cat0_def legacy_empty_def)

lemma torch_split_two:
  assumes "length (rows t) = n + m"
  shows "torch_split t [n, m] =
           Inr [\<lparr>inner_shape = inner_shape t, rows = take n (rows t)\<rparr>,
                \<lparr>inner_shape = inner_shape t, rows = drop n (rows t)\<rparr>]"
  using assms by (simp add: torch_split_def)

lemma torch_split_two_Inr:
  assumes "torch_split t [n, m] = Inr parts"
  shows "length (rows t) = n + m"
  using assms by (simp add: torch_split_def split: if_splits)

lemma encode_views_value:
  fixes v0 v1 :: "'x tensor"
  assumes "inner_shape v0 = inner_shape v1"
    and "enc \<lparr>inner_shape = inner_shape v0, rows = rows v0 @ rows v1\<rparr> = Inr features"
    and "length (rows features) = length labs + length labs"
  shows "encode_views enc v0 v1 labs =
           Inr (\<lparr>inner_shape = inner_shape features, rows = take (length labs) (rows features)\<rparr>,
                \<lparr>inner_shape = inner_shape features, rows = drop (length labs) (rows features)\<rparr>)"
  using assms
  by (simp add: encode_views_def torch_cat0_same_shape torch_split_two Let_def)

text \<open>
  Claim C1. For every batch whose two views have \<open>B\<close> rows each and the same shape, with
  \<open>B\<close> labels, and an encoder that returns \<open>2 * B\<close> embeddings for the concatenated views:
  splitting the embeddings gives two halves of \<open>B\<close> rows; the first half holds the
  embeddings at the positions of view 1 and the second half those at the positions of
  view 2, in the order of the samples, and nothing is lost (the halves concatenate back
  to the encoder's output). When the encoder works sample by sample the halves are the
  embeddings of view 1 and of view 2. The pairing of line 166 puts embedding \<open>i\<close> of both
  halves in row \<open>i\<close>. With the identity in place of the encoder, concatenating and splitting
  returns the two views themselves.
\<close>

theorem views_round_trip:
  fixes v0 v1 :: "'x tensor" and features :: "'e tensor"
  assumes "length (rows v0) = B" and "length (rows v1) = B" and "length labs = B"
    and "inner_shape v0 = inner_shape v1"
    and "enc \<lparr>inner_shape = inner_shape v0, rows = rows v0 @ rows v1\<rparr> = Inr features"
    and "length (rows features) = 2 * B"
  shows "\<exists>f1 f2 paired.
           encode_views enc v0 v1 labs = Inr (f1, f2)
         \<and> length (rows f1) = B \<and> length (rows f2) = B
         \<and> rows f1 @ rows f2 = rows features
         \<and> (\<forall>i<B. rows f1 ! i = rows features ! i \<and> rows f2 ! i = rows features ! (B + i)
                  \<and> (rows v0 @ rows v1) ! i = rows v0 ! i
                  \<and> (rows v0 @ rows v1) ! (B + i) = rows v1 ! i)
         \<and> (\<forall>g. rows features = map g (rows v0 @ rows v1) \<longrightarrow>
                  rows f1 = map g (rows v0) \<and> rows f2 = map g (rows v1))
         \<and> pair_views f1 f2 = Inr paired \<and> length (rows paired) = B
         \<and> (\<forall>i<B. rows paired ! i = [rows f1 ! i, rows f2 ! i])
         \<and> encode_views Inr v0 v1 labs = Inr (v0, v1)"
proof -
  define f1 where "f1 = \<lparr>inner_shape = inner_shape features, rows = take B (rows features)\<rparr>"
  define f2 where "f2 = \<lparr>inner_shape = inner_shape features, rows = drop B (rows features)\<rparr>"
  define paired where "paired = \<lparr>inner_shape = 2 # inner_shape f1,
                rows = map2 (\<lambda>a b. [a, b]) (rows f1) (rows f2)\<rparr>"
  have ev: "encode_views enc v0 v1 labs = Inr (f1, f2)"
    using assms by (simp add: encode_views_value f1_def f2_def)
  have len: "length (rows f1) = B" "length (rows f2) = B"
    using assms by (simp_all add: f1_def f2_def)
  have app: "rows f1 @ rows f2 = rows features"
    by (simp add: f1_def f2_def)
  have idx: "\<forall>i<B. rows f1 ! i = rows features ! i \<and> rows f2 ! i = rows features ! (B + i)
                  \<and> (rows v0 @ rows v1) ! i = rows v0 ! i
                  \<and> (rows v0 @ rows v1) ! (B + i) = rows v1 ! i"
    using assms by (simp add: f1_def f2_def nth_append)
  have per: "\<forall>g. rows features = map g (rows v0 @ rows v1) \<longrightarrow>
                  rows f1 = map g (rows v0) \<and> rows f2 = map g (rows v1)"
    using assms by (simp add: f1_def f2_def)
  have pv: "pair_views f1 f2 = Inr paired"
    using len by (simp add: pair_views_def paired_def f1_def f2_def)
  have pl: "length (rows paired) = B"
    using len by (simp add: paired_def)
  have pi: "\<forall>i<B. rows paired ! i = [rows f1 ! i, rows f2 ! i]"
    using len by (simp add: paired_def)
  have "Inr \<lparr>inner_shape = inner_shape v0, rows = rows v0 @ rows v1\<rparr>
          = (Inr \<lparr>inner_shape = inner_shape v0, rows = rows v0 @ rows v1\<rparr> :: error + 'x tensor)" ..
  from encode_views_value [of v0 v1 Inr, OF assms(4) this, of labs] assms
  have id: "encode_views Inr v0 v1 labs = Inr (v0, v1)"
    by simp
  from ev len app idx per pv pl pi id show ?thesis by blast
qed

text \<open>Two views of two samples and an encoder that multiplies every sample by ten.\<close>

theorem views_round_trip_witness:
  "encode_views (\<lambda>t. Inr \<lparr>inner_shape = [], rows = map (\<lambda>x. 10 * x) (rows t)\<rparr>)
      \<lparr>inner_shape = [], rows = [1, 2 :: nat]\<rparr> \<lparr>inner_shape = [], rows = [3, 4]\<rparr> [0, 1]
     = Inr (\<lparr>inner_shape = [], rows = [10, 20 :: nat]\<rparr>, \<lparr>inner_shape = [], rows = [30, 40]\<rparr>)
   \<and> encode_views Inr \<lparr>inner_shape = [], rows = [1, 2 :: nat]\<rparr> \<lparr>inner_shape = [], rows = [3, 4]\<rparr> [0, 1]
     = Inr (\<lparr>inner_shape = [], rows = [1, 2 :: nat]\<rparr>, \<lparr>inner_shape = [], rows = [3, 4]\<rparr>)"
proof -
  let ?enc = "\<lambda>t :: nat tensor. Inr \<lparr>inner_shape = [], rows = map (\<lambda>x. 10 * x) (rows t)\<rparr> :: error + nat tensor"
  let ?v0 = "\<lparr>inner_shape = [], rows = [1, 2 :: nat]\<rparr>"
  let ?v1 = "\<lparr>inner_shape = [], rows = [3, 4 :: nat]\<rparr>"
  let ?features = "\<lparr>inner_shape = [], rows = [10, 20, 30, 40 :: nat]\<rparr>"
  have h: "length (rows ?v0) = 2" "length (rows ?v1) = 2" "length [0, 1 :: int] = 2"
    "inner_shape ?v0 = inner_shape ?v1"
    "?enc \<lparr>inner_shape = inner_shape ?v0, rows = rows ?v0 @ rows ?v1\<rparr> = Inr ?features"
    "length (rows ?features) = 2 * 2"
    by simp_all
  from views_round_trip [of ?v0 2 ?v1 "[0, 1]" ?enc ?features, OF h]
  obtain f1 f2 where e: "encode_views ?enc ?v0 ?v1 [0, 1] = Inr (f1, f2)"
    and l: "length (rows f1) = 2" "rows f1 @ rows f2 = rows ?features"
    and s: "inner_shape f1 = inner_shape f1"
    and i: "encode_views Inr ?v0 ?v1 [0, 1] = Inr (?v0, ?v1)"
    by blast
  from e have "encode_views ?enc ?v0 ?v1 [0, 1] = Inr (\<lparr>inner_shape = [], rows = [10, 20 :: nat]\<rparr>, \<lparr>inner_shape = [], rows = [30, 40]\<rparr>)"
    by (simp add: encode_views_def torch_cat0_def legacy_empty_def torch_split_def)
  with i show ?thesis by simp
qed








section \<open>The driver: properties of the trace\<close>

lemma marks_Nil [simp]: "marks [] = []"
  by (simp add: marks_def List.map_filter_simps)



lemma logged_losses_Nil [simp]: "logged_losses [] = []"
  by (simp add: logged_losses_def List.map_filter_simps)


lemma logged_losses_append: "logged_losses (xs @ ys) = logged_losses xs @ logged_losses ys"
  by (simp add: logged_losses_def List.map_filter_def)













lemma saved_files_Nil [simp]: "saved_files [] = []"
  by (simp add: saved_files_def List.map_filter_simps)













section \<open>The meters of an epoch\<close>








end
